theory Spec2Isabelle
  imports Complex_Main "HOL-Library.Sublist"
begin

section \<open>The bridged interactive grader (dmoj/graders/bridged.py)\<close>

text \<open>
  A shallow embedding of \<^verbatim>\<open>BridgedInteractiveGrader\<close>. Every exception the Python
  raises is a value \<open>Inl e\<close> of a sum type; collaborators that live outside the file
  (the contrib-module registry, the compiler, the superclass, the sandbox) are
  fields of the records \<open>env\<close> and \<open>world\<close>, so every theorem holds for whatever
  they compute.
\<close>

subsection \<open>Values and errors\<close>

type_synonym bytes = string
type_synonym fd = int
type_synonym executor = nat

text \<open>
  A value read from the YAML configuration. Scalars are handed out raw; a list or a
  mapping is handed out wrapped in a \<^verbatim>\<open>ConfigNode\<close>, whose \<^verbatim>\<open>unwrap()\<close> gives the
  raw container back.
\<close>

datatype config_value =
    CfgNone
  | CfgBool bool
  | CfgNum real
  | CfgStr string
  | CfgList "config_value list"
  | CfgDict "(string \<times> config_value) list"

datatype error =
    InternalError string
  | CompileError string
  | AttributeError string
  | UnboundLocalError string
  | AssertionError
  | KeyError string
  | TypeError
  | OSError string

text \<open>
  \<^verbatim>\<open>CheckerOutput = Union[bool, CheckerResult]\<close>. The result of \<^verbatim>\<open>parse_return_code\<close>
  (the spec's ParsedResult) is a \<^verbatim>\<open>CheckerResult\<close>.
\<close>

record checker_result =
  passed :: bool
  cr_points :: real
  feedback :: string
  extended_feedback :: string

datatype checker_output = CheckerBool bool | CheckerRes checker_result

text \<open>How a verdict is read: a bare boolean is its own pass flag.\<close>

fun is_failing :: "checker_output \<Rightarrow> bool" where
  "is_failing (CheckerBool b) = (\<not> b)"
| "is_failing (CheckerRes cr) = (\<not> passed cr)"

subsection \<open>Configuration, problem, test case, result\<close>

text \<open>
  \<^verbatim>\<open>problem.config.interactive\<close>. Attribute access on a \<^verbatim>\<open>ConfigNode\<close> gives
  \<^verbatim>\<open>None\<close> for a missing key, \<^verbatim>\<open>get(key, default)\<close> gives the default. The fields the
  grader reads with \<^verbatim>\<open>get\<close> (\<open>flags\<close>, \<open>unbuffered\<close>, \<open>hd_type\<close>) are options, \<open>None\<close> for
  an absent key; the fields it tests with \<^verbatim>\<open>or\<close> are options, \<open>None\<close> for an absent or null
  value; \<open>files\<close> keeps its raw shape, which \<^verbatim>\<open>_generate_interactor_binary\<close> inspects.
\<close>

record handler_data =
  files :: config_value
  flags :: "config_value option"
  unbuffered :: "config_value option"
  lang :: config_value
  compiler_time_limit :: config_value
  hd_type :: "string option"
  preprocessing_time :: "real option"
  hd_memory_limit :: "int option"
  args_format_string :: "string option"

record problem =
  problem_id :: string
  storage_namespace :: "string option"
  time_limit :: real
  memory_limit :: int
  interactive :: handler_data

text \<open>
  \<^verbatim>\<open>case.config['checker']\<close> is absent or null, a checker name, or a mapping naming a
  checker and its arguments (a non-empty \<^verbatim>\<open>ConfigNode\<close>, which is truthy and differs
  from every string).
\<close>

datatype checker_config =
    CheckerNone
  | CheckerName string
  | CheckerNode string config_value

record test_case =
  points :: real
  checker :: checker_config
  output_data :: bytes
  symlinks :: config_value
  wall_time_factor :: real

record result =
  result_flag :: int
  proc_output :: "bytes option"

subsection \<open>Collaborators\<close>

text \<open>
  A process handle returned by an executor's \<^verbatim>\<open>launch\<close>; \<open>stderr_piped\<close> says whether
  its \<^verbatim>\<open>stderr\<close> attribute is a stream (not \<^verbatim>\<open>None\<close>).
\<close>

record process =
  pid :: nat
  stderr_piped :: bool

text \<open>
  A contrib module: \<^verbatim>\<open>ContribModule.parse_return_code(proc, executor, point_value,
  time_limit, memory_limit, feedback, extended_feedback, name, stderr)\<close>, which raises
  or returns a result, and \<^verbatim>\<open>get_interactor_args_format_string()\<close>.
\<close>

record contrib_module =
  parse_return_code ::
    "process \<Rightarrow> executor \<Rightarrow> real \<Rightarrow> real \<Rightarrow> int \<Rightarrow> string \<Rightarrow> string \<Rightarrow> string \<Rightarrow> bytes
      \<Rightarrow> error + checker_result"
  get_interactor_args_format_string :: string

text \<open>
  What the module imports: the registry \<^verbatim>\<open>contrib_modules\<close>, \<^verbatim>\<open>utf8text\<close>,
  \<^verbatim>\<open>get_problem_root\<close>, \<^verbatim>\<open>compile_with_auxiliary_files\<close>,
  \<^verbatim>\<open>env['generator_memory_limit']\<close>, and \<^verbatim>\<open>StandardGrader.check_result\<close>.
\<close>

record env =
  contrib_modules :: "string \<Rightarrow> contrib_module option"
  utf8text :: "bytes \<Rightarrow> string"
  get_problem_root :: "string \<Rightarrow> string option \<Rightarrow> string option"
  compile_with_auxiliary_files ::
    "string list \<Rightarrow> config_value \<Rightarrow> config_value \<Rightarrow> config_value \<Rightarrow> config_value
      \<Rightarrow> error + executor"
  generator_memory_limit :: int
  super_check_result :: "test_case \<Rightarrow> result \<Rightarrow> error + checker_output"

subsection \<open>\<^verbatim>\<open>_generate_interactor_binary\<close>\<close>

text \<open>\<^verbatim>\<open>os.path.join(a, b)\<close> on POSIX, for two components.\<close>

definition os_path_join :: "string \<Rightarrow> string \<Rightarrow> string" where
  "os_path_join a b =
     (if b \<noteq> [] \<and> hd b = CHR ''/'' then b
      else if a = [] \<or> last a = CHR ''/'' then a @ b
      else a @ ''/'' @ b)"

text \<open>
  Lines 128-131: the local \<^verbatim>\<open>filenames\<close> is bound for a string and for a node that
  unwraps to a list; a node that unwraps to a mapping binds nothing (there is no
  \<^verbatim>\<open>else\<close>); any other value has no \<^verbatim>\<open>unwrap\<close> attribute.
\<close>

fun bind_filenames :: "config_value \<Rightarrow> error + config_value list option" where
  "bind_filenames (CfgStr s) = Inr (Some [CfgStr s])"
| "bind_filenames (CfgList fs) = Inr (Some fs)"
| "bind_filenames (CfgDict kvs) = Inr None"
| "bind_filenames _ = Inl (AttributeError ''unwrap'')"

text \<open>Line 134: \<^verbatim>\<open>os.path.join\<close> accepts strings only.\<close>

fun join_filenames :: "string \<Rightarrow> config_value list \<Rightarrow> error + string list" where
  "join_filenames dir [] = Inr []"
| "join_filenames dir (CfgStr f # fs) =
     (case join_filenames dir fs of
        Inl e \<Rightarrow> Inl e
      | Inr ps \<Rightarrow> Inr (os_path_join dir f # ps))"
| "join_filenames dir (_ # fs) = Inl TypeError"

definition generate_interactor_binary :: "env \<Rightarrow> problem \<Rightarrow> handler_data \<Rightarrow> error + executor" where
  "generate_interactor_binary e p h =
     (case bind_filenames (files h) of
        Inl err \<Rightarrow> Inl err
      | Inr filenames \<Rightarrow>
          (case get_problem_root e (problem_id p) (storage_namespace p) of
             None \<Rightarrow> Inl AssertionError
           | Some problem_root \<Rightarrow>
               (case filenames of
                  None \<Rightarrow> Inl (UnboundLocalError ''filenames'')
                | Some fs \<Rightarrow>
                    (case join_filenames problem_root fs of
                       Inl err \<Rightarrow> Inl err
                     | Inr paths \<Rightarrow>
                         compile_with_auxiliary_files e paths
                           (case flags h of None \<Rightarrow> CfgList [] | Some v \<Rightarrow> v)
                           (lang h) (compiler_time_limit h)
                           (case unbuffered h of None \<Rightarrow> CfgBool True | Some v \<Rightarrow> v)))))"

subsection \<open>\<^verbatim>\<open>__init__\<close>\<close>

record grader =
  g_problem :: problem
  binary :: executor
  handler_data :: handler_data
  interactor_binary :: executor
  contrib_type :: string

text \<open>Line 38: \<^verbatim>\<open>self.handler_data.get('type', 'default')\<close>\<close>

definition configured_type :: "handler_data \<Rightarrow> string" where
  "configured_type h = (case hd_type h of None \<Rightarrow> ''default'' | Some t \<Rightarrow> t)"

text \<open>
  \<open>super_init\<close> is the outcome of \<^verbatim>\<open>super().__init__\<close>: it raises, or it returns
  having compiled the submission into \<^verbatim>\<open>self.binary\<close>.
\<close>

definition init :: "env \<Rightarrow> error + executor \<Rightarrow> problem \<Rightarrow> error + grader" where
  "init e super_init p =
     (case super_init of
        Inl err \<Rightarrow> Inl err
      | Inr sub \<Rightarrow>
          (case generate_interactor_binary e p (interactive p) of
             Inl (CompileError m) \<Rightarrow> Inl (InternalError ''interactor failed compiling'')
           | Inl err \<Rightarrow> Inl err
           | Inr b \<Rightarrow>
               (let t = configured_type (interactive p) in
                if contrib_modules e t = None
                then Inl (InternalError (t @ '' is not a valid contrib module''))
                else Inr \<lparr>g_problem = p, binary = sub, handler_data = interactive p,
                          interactor_binary = b, contrib_type = t\<rparr>)))"

subsection \<open>\<^verbatim>\<open>check_result\<close>\<close>

text \<open>
  The per-case attributes that \<^verbatim>\<open>_launch_process\<close> and \<^verbatim>\<open>_interact_with_process\<close>
  have set when \<^verbatim>\<open>check_result\<close> runs.
\<close>

record session =
  interactor :: process
  interactor_time_limit :: real
  interactor_memory_limit :: int
  interactor_stderr :: bytes

text \<open>Lines 46-56: the registry lookup and the call of \<^verbatim>\<open>parse_return_code\<close>.\<close>

definition parsed_result :: "env \<Rightarrow> grader \<Rightarrow> session \<Rightarrow> test_case \<Rightarrow> error + checker_result" where
  "parsed_result e g s c =
     (case contrib_modules e (contrib_type g) of
        None \<Rightarrow> Inl (KeyError (contrib_type g))
      | Some m \<Rightarrow>
          parse_return_code m (interactor s) (interactor_binary g) (points c)
            (interactor_time_limit s) (interactor_memory_limit s)
            '''' (utf8text e (interactor_stderr s)) ''interactor'' (interactor_stderr s))"

text \<open>\<^verbatim>\<open>(case.config['checker'] or 'standard') != 'standard'\<close>\<close>

fun custom_checker :: "checker_config \<Rightarrow> bool" where
  "custom_checker CheckerNone = False"
| "custom_checker (CheckerName n) = ((if n = [] then ''standard'' else n) \<noteq> ''standard'')"
| "custom_checker (CheckerNode n args) = True"

definition check_result ::
    "env \<Rightarrow> grader \<Rightarrow> session \<Rightarrow> test_case \<Rightarrow> result \<Rightarrow> error + checker_output" where
  "check_result e g s c r =
     (case parsed_result e g s c of
        Inl err \<Rightarrow> Inl err
      | Inr pr \<Rightarrow>
          if result_flag r \<noteq> 0 then Inr (CheckerBool False)
          else if passed pr \<and> custom_checker (checker c) then super_check_result e c r
          else Inr (CheckerRes pr))"

subsection \<open>Calls into the operating system and the sandbox\<close>

text \<open>
  The grader is single-threaded: its calls into the operating system and the sandbox
  happen one after the other. A run is the list of the calls it made, in order, and
  either the exception that ended it or its value.
\<close>

datatype event =
    EvPipe fd fd
  | EvLaunchSubmission real int config_value fd fd real
  | EvClose fd
  | EvMkTemp bytes string
  | EvRemoveTemp string
  | EvLaunchInteractor "string list" real int fd fd string
  | EvCommunicate process
  | EvWait process
  | EvReadStderr process

type_synonym 'a run = "event list \<times> (error + 'a)"

definition return :: "'a \<Rightarrow> 'a run" where
  "return x = ([], Inr x)"

definition raise :: "error \<Rightarrow> 'a run" where
  "raise err = ([], Inl err)"

text \<open>A call \<open>ev\<close> whose outcome is \<open>r\<close>.\<close>

definition call :: "event \<Rightarrow> error + 'a \<Rightarrow> 'a run" where
  "call ev r = ([ev], r)"

definition bind :: "'a run \<Rightarrow> ('a \<Rightarrow> 'b run) \<Rightarrow> 'b run" where
  "bind m f =
     (case m of
        (tr, Inl err) \<Rightarrow> (tr, Inl err)
      | (tr, Inr x) \<Rightarrow> (case f x of (tr', r) \<Rightarrow> (tr @ tr', r)))"

text \<open>
  The body of a \<^verbatim>\<open>with mktemp(...) as f\<close> block: the temporary file is removed when
  the block is left, by its end or by an exception.
\<close>

definition with_removed :: "string \<Rightarrow> 'a run \<Rightarrow> 'a run" where
  "with_removed name m = (fst m @ [EvRemoveTemp name], snd m)"

text \<open>
  What the operating system and the sandbox answer during one test case: the pipes
  \<^verbatim>\<open>os.pipe()\<close> hands out, the outcome of each launch, \<^verbatim>\<open>os.close\<close>,
  \<^verbatim>\<open>communicate\<close>, \<^verbatim>\<open>wait\<close> and \<^verbatim>\<open>read\<close>, the names of the temporary files, the
  random log-file name, and \<^verbatim>\<open>shlex.split(fmt.format(input_file=shlex.quote(i),
  output_file=shlex.quote(o), answer_file=shlex.quote(a)))\<close> as a function of
  \<open>fmt\<close>, \<open>i\<close>, \<open>o\<close>, \<open>a\<close>.
\<close>

record world =
  first_pipe :: "fd \<times> fd"
  second_pipe :: "fd \<times> fd"
  launch_submission :: "error + process"
  os_close :: "fd \<Rightarrow> error + unit"
  input_file_name :: string
  answer_file_name :: string
  random_log_file :: string
  split_format :: "string \<Rightarrow> string \<Rightarrow> string \<Rightarrow> string \<Rightarrow> error + string list"
  launch_interactor :: "error + process"
  communicate :: "error + bytes option \<times> bytes"
  wait :: "error + unit"
  stderr_read :: "error + bytes"

subsection \<open>\<^verbatim>\<open>_launch_process\<close>\<close>

record launched =
  interactor_stdin_pipe :: fd
  interactor_stdout_pipe :: fd
  current_proc :: "process option"

definition launch_process :: "world \<Rightarrow> grader \<Rightarrow> test_case \<Rightarrow> launched run" where
  "launch_process w g c =
     (case first_pipe w of (interactor_stdin, submission_stdout) \<Rightarrow>
      case second_pipe w of (submission_stdin, interactor_stdout) \<Rightarrow>
        bind (call (EvPipe interactor_stdin submission_stdout) (Inr ())) (\<lambda>_.
        bind (call (EvPipe submission_stdin interactor_stdout) (Inr ())) (\<lambda>_.
        bind (call (EvLaunchSubmission (time_limit (g_problem g)) (memory_limit (g_problem g))
                      (symlinks c) submission_stdin submission_stdout
                      (wall_time_factor c * time_limit (g_problem g)))
                (launch_submission w)) (\<lambda>proc.
        bind (call (EvClose submission_stdin) (os_close w submission_stdin)) (\<lambda>_.
        bind (call (EvClose submission_stdout) (os_close w submission_stdout)) (\<lambda>_.
        return \<lparr>interactor_stdin_pipe = interactor_stdin,
                 interactor_stdout_pipe = interactor_stdout,
                 current_proc = Some proc\<rparr>))))))"

subsection \<open>\<^verbatim>\<open>_interact_with_process\<close>\<close>

text \<open>Line 88: \<^verbatim>\<open>(self.handler_data.preprocessing_time or 2) + self.problem.time_limit\<close>\<close>

definition compute_time_limit :: "handler_data \<Rightarrow> problem \<Rightarrow> real" where
  "compute_time_limit h p =
     (case preprocessing_time h of
        None \<Rightarrow> 2
      | Some t \<Rightarrow> if t = 0 then 2 else t) + time_limit p"

text \<open>Line 89: \<^verbatim>\<open>self.handler_data.memory_limit or env['generator_memory_limit']\<close>\<close>

definition compute_memory_limit :: "env \<Rightarrow> handler_data \<Rightarrow> int" where
  "compute_memory_limit e h =
     (case hd_memory_limit h of
        None \<Rightarrow> generator_memory_limit e
      | Some m \<Rightarrow> if m = 0 then generator_memory_limit e else m)"

text \<open>Lines 90-93: the registry is consulted only when the configured template is falsy.\<close>

definition resolve_args_format_string :: "env \<Rightarrow> grader \<Rightarrow> error + string" where
  "resolve_args_format_string e g =
     (case args_format_string (handler_data g) of
        Some fmt \<Rightarrow>
          if fmt \<noteq> [] then Inr fmt
          else (case contrib_modules e (contrib_type g) of
                  None \<Rightarrow> Inl (KeyError (contrib_type g))
                | Some m \<Rightarrow> Inr (get_interactor_args_format_string m))
      | None \<Rightarrow>
          (case contrib_modules e (contrib_type g) of
             None \<Rightarrow> Inl (KeyError (contrib_type g))
           | Some m \<Rightarrow> Inr (get_interactor_args_format_string m)))"

text \<open>
  Lines 108-124, inside both \<^verbatim>\<open>with\<close> blocks. The run returns the submission's
  stderr, the attributes set on \<^verbatim>\<open>self\<close> and the updated \<^verbatim>\<open>result\<close>.
\<close>

definition interaction ::
    "world \<Rightarrow> launched \<Rightarrow> process \<Rightarrow> result \<Rightarrow> real \<Rightarrow> int \<Rightarrow> string list
      \<Rightarrow> (bytes \<times> session \<times> result) run" where
  "interaction w l sub r tlim mlim interactor_args =
     bind (call (EvLaunchInteractor interactor_args tlim mlim
                   (interactor_stdin_pipe l) (interactor_stdout_pipe l) (random_log_file w))
             (launch_interactor w)) (\<lambda>proc.
     bind (call (EvClose (interactor_stdin_pipe l)) (os_close w (interactor_stdin_pipe l))) (\<lambda>_.
     bind (call (EvClose (interactor_stdout_pipe l)) (os_close w (interactor_stdout_pipe l))) (\<lambda>_.
     bind (call (EvCommunicate proc) (communicate w)) (\<lambda>(out, err).
     bind (call (EvWait sub) (wait w)) (\<lambda>_.
     bind (call (EvReadStderr sub) (stderr_read w)) (\<lambda>data.
     return (data,
             \<lparr>interactor = proc, interactor_time_limit = tlim,
              interactor_memory_limit = mlim, interactor_stderr = err\<rparr>,
             r\<lparr>proc_output := out\<rparr>)))))))"

definition interact_with_process ::
    "env \<Rightarrow> world \<Rightarrow> grader \<Rightarrow> launched \<Rightarrow> test_case \<Rightarrow> result \<Rightarrow> bytes
      \<Rightarrow> (bytes \<times> session \<times> result) run" where
  "interact_with_process e w g l c r input =
     (case current_proc l of
        None \<Rightarrow> raise AssertionError
      | Some sub \<Rightarrow>
          if \<not> stderr_piped sub then raise AssertionError
          else
            let judge_output = output_data c;
                tlim = compute_time_limit (handler_data g) (g_problem g);
                mlim = compute_memory_limit e (handler_data g)
            in
            bind ([], resolve_args_format_string e g) (\<lambda>fmt.
            bind (call (EvMkTemp input (input_file_name w)) (Inr (input_file_name w))) (\<lambda>input_file.
            with_removed input_file (
              bind (call (EvMkTemp judge_output (answer_file_name w)) (Inr (answer_file_name w)))
                (\<lambda>answer_file.
              with_removed answer_file (
                bind ([], split_format w fmt input_file (random_log_file w) answer_file)
                  (\<lambda>interactor_args.
                interaction w l sub r tlim mlim interactor_args)))))))"

subsection \<open>The time limit as the specification words it\<close>

text \<open>
  The specification's reading of line 88: the configured preprocessing time, 2 when
  none is configured, plus the submission's time limit.
\<close>

definition specified_time_limit :: "handler_data \<Rightarrow> problem \<Rightarrow> real" where
  "specified_time_limit h p =
     (case preprocessing_time h of None \<Rightarrow> 2 | Some t \<Rightarrow> t) + time_limit p"

subsection \<open>A concrete problem, registry and run\<close>

definition passing_module :: contrib_module where
  "passing_module =
     \<lparr>parse_return_code = (\<lambda>proc exe pts t m fb efb name err.
          Inr \<lparr>passed = True, cr_points = pts, feedback = fb, extended_feedback = efb\<rparr>),
      get_interactor_args_format_string = ''{input_file} {output_file} {answer_file}''\<rparr>"

definition crashing_module :: contrib_module where
  "crashing_module =
     \<lparr>parse_return_code = (\<lambda>proc exe pts t m fb efb name err.
          Inl (InternalError ''interactor crashed'')),
      get_interactor_args_format_string = ''{input_file} {output_file} {answer_file}''\<rparr>"

definition example_env :: env where
  "example_env =
     \<lparr>contrib_modules = (\<lambda>t. if t = ''default'' then Some passing_module
                              else if t = ''crash'' then Some crashing_module else None),
      utf8text = (\<lambda>b. b),
      get_problem_root = (\<lambda>pid ns. Some (''/problems/'' @ pid)),
      compile_with_auxiliary_files = (\<lambda>paths fl lg t u.
          if lg = CfgStr ''CPP17'' then Inr 7 else Inl (CompileError ''unknown language'')),
      generator_memory_limit = 65536,
      super_check_result = (\<lambda>c r. Inr (CheckerBool (proc_output r = Some (output_data c))))\<rparr>"

text \<open>The same collaborators with an empty registry.\<close>

definition empty_registry_env :: env where
  "empty_registry_env = example_env\<lparr>contrib_modules := (\<lambda>t. None)\<rparr>"

definition example_handler_data :: handler_data where
  "example_handler_data =
     \<lparr>files = CfgStr ''interactor.cpp'', flags = None, unbuffered = None,
      lang = CfgStr ''CPP17'', compiler_time_limit = CfgNone, hd_type = None,
      preprocessing_time = None, hd_memory_limit = None, args_format_string = None\<rparr>"

definition example_problem :: problem where
  "example_problem =
     \<lparr>problem_id = ''guess'', storage_namespace = None, time_limit = 5,
      memory_limit = 262144, interactive = example_handler_data\<rparr>"

definition example_grader :: grader where
  "example_grader =
     \<lparr>g_problem = example_problem, binary = 1, handler_data = example_handler_data,
      interactor_binary = 7, contrib_type = ''default''\<rparr>"

definition example_case :: test_case where
  "example_case =
     \<lparr>points = 10, checker = CheckerNone, output_data = ''42'', symlinks = CfgNone,
      wall_time_factor = 3\<rparr>"

definition example_world :: world where
  "example_world =
     \<lparr>first_pipe = (3, 4), second_pipe = (5, 6),
      launch_submission = Inr \<lparr>pid = 100, stderr_piped = True\<rparr>,
      os_close = (\<lambda>f. Inr ()),
      input_file_name = ''/tmp/in'', answer_file_name = ''/tmp/ans'',
      random_log_file = ''k3_x9a0q'',
      split_format = (\<lambda>fmt i lg a. Inr [i, lg, a]),
      launch_interactor = Inr \<lparr>pid = 101, stderr_piped = True\<rparr>,
      communicate = Inr (None, ''ok''),
      wait = Inr (),
      stderr_read = Inr []\<rparr>"

definition example_launched :: launched where
  "example_launched =
     \<lparr>interactor_stdin_pipe = 3, interactor_stdout_pipe = 6,
      current_proc = Some \<lparr>pid = 100, stderr_piped = True\<rparr>\<rparr>"

definition example_session :: session where
  "example_session =
     \<lparr>interactor = \<lparr>pid = 101, stderr_piped = True\<rparr>, interactor_time_limit = 7,
      interactor_memory_limit = 65536, interactor_stderr = ''ok''\<rparr>"

definition crash_grader :: grader where
  "crash_grader = example_grader\<lparr>contrib_type := ''crash''\<rparr>"

definition custom_case :: test_case where
  "custom_case = example_case\<lparr>checker := CheckerName ''identical''\<rparr>"

text \<open>A result with the time-limit flag set, and a clean one.\<close>

definition tle_result :: result where
  "tle_result = \<lparr>result_flag = 4, proc_output = None\<rparr>"

definition clean_result :: result where
  "clean_result = \<lparr>result_flag = 0, proc_output = None\<rparr>"

text \<open>Problems whose handler configuration differs from the example's in one field.\<close>

definition bogus_problem :: problem where
  "bogus_problem =
     example_problem\<lparr>interactive := example_handler_data\<lparr>hd_type := Some
        ''bogus''\<rparr>\<rparr>"

definition mapping_files_problem :: problem where
  "mapping_files_problem =
     example_problem\<lparr>interactive :=
       example_handler_data\<lparr>files := CfgDict [(''main'', CfgStr
        ''interactor.cpp'')]\<rparr>\<rparr>"

definition missing_files_problem :: problem where
  "missing_files_problem =
     example_problem\<lparr>interactive := example_handler_data\<lparr>files :=
        CfgNone\<rparr>\<rparr>"

definition pascal_problem :: problem where
  "pascal_problem =
     example_problem\<lparr>interactive := example_handler_data\<lparr>lang := CfgStr
        ''PAS''\<rparr>\<rparr>"

definition zero_slack_problem :: problem where
  "zero_slack_problem =
     example_problem\<lparr>interactive := example_handler_data\<lparr>preprocessing_time :=
        Some 0\<rparr>\<rparr>"

definition zero_slack_grader :: grader where
  "zero_slack_grader =
     example_grader\<lparr>g_problem := zero_slack_problem,
                    handler_data := interactive zero_slack_problem\<rparr>"

definition bogus_mapping_problem :: problem where
  "bogus_mapping_problem =
     example_problem\<lparr>interactive :=
       example_handler_data\<lparr>hd_type := Some ''bogus'',
         files := CfgDict [(''main'', CfgStr ''interactor.cpp'')]\<rparr>\<rparr>"

definition bogus_pascal_problem :: problem where
  "bogus_pascal_problem =
     example_problem\<lparr>interactive :=
       example_handler_data\<lparr>hd_type := Some ''bogus'', lang := CfgStr ''PAS''\<rparr>\<rparr>"

section \<open>Properties\<close>

subsection \<open>The verdict reconciler\<close>

lemma custom_checker_iff:
  "custom_checker k \<longleftrightarrow> k \<notin> {CheckerNone, CheckerName [], CheckerName ''standard''}"
  by (cases k) auto

lemma check_result_flagged:
  "parsed_result e g s c = Inr pr \<Longrightarrow> result_flag r \<noteq> 0
    \<Longrightarrow> check_result e g s c r = Inr (CheckerBool False)"
  by (simp add: check_result_def)

text \<open>
  C1. Whenever the submission's result flags are nonzero and the interactor's exit code
  parsed to a verdict \<open>pr\<close>, \<^verbatim>\<open>check_result\<close> returns, and what it returns is a failing
  verdict, whatever \<open>pr\<close> says.
\<close>

theorem check_result_fails_on_result_flag:
  assumes "result_flag r \<noteq> 0"
    and "parsed_result e g s c = Inr pr"
  shows "\<exists>v. check_result e g s c r = Inr v \<and> is_failing v"
  using assms by (simp add: check_result_flagged)

theorem check_result_fails_on_result_flag_witness:
  "result_flag tle_result \<noteq> 0 \<and>
   parsed_result example_env example_grader example_session example_case =
     Inr \<lparr>passed = True, cr_points = 10, feedback = [], extended_feedback = ''ok''\<rparr> \<and>
   (\<exists>v. check_result example_env example_grader example_session example_case tle_result = Inr v
        \<and> is_failing v)"
  using check_result_fails_on_result_flag
    [of tle_result example_env example_grader example_session example_case
        "\<lparr>passed = True, cr_points = 10, feedback = [], extended_feedback = ''ok''\<rparr>"]
  by (simp add: parsed_result_def tle_result_def example_env_def passing_module_def
        example_grader_def example_session_def example_case_def)

text \<open>
  C2. With no result flag set and the interactor's exit code parsed to \<open>pr\<close>: when \<open>pr\<close>
  passed and the case's checker is configured and is not \<^verbatim>\<open>'standard'\<close>, the verdict is
  whatever the superclass's \<^verbatim>\<open>check_result\<close> gives on the same case and result;
  otherwise the verdict is \<open>pr\<close> itself.
\<close>

theorem check_result_defers_to_custom_checker:
  assumes "result_flag r = 0"
    and "parsed_result e g s c = Inr pr"
  shows "check_result e g s c r =
           (if passed pr \<and> checker c \<notin> {CheckerNone, CheckerName [], CheckerName ''standard''}
            then super_check_result e c r
            else Inr (CheckerRes pr))"
  using assms by (simp add: check_result_def custom_checker_iff)

theorem check_result_defers_to_custom_checker_witness:
  "result_flag clean_result = 0 \<and>
   parsed_result example_env example_grader example_session custom_case =
     Inr \<lparr>passed = True, cr_points = 10, feedback = [], extended_feedback = ''ok''\<rparr> \<and>
   check_result example_env example_grader example_session custom_case clean_result =
     Inr (CheckerBool False) \<and>
   parsed_result example_env example_grader example_session example_case =
     Inr \<lparr>passed = True, cr_points = 10, feedback = [], extended_feedback = ''ok''\<rparr> \<and>
   check_result example_env example_grader example_session example_case clean_result =
     Inr (CheckerRes \<lparr>passed = True, cr_points = 10, feedback = [], extended_feedback = ''ok''\<rparr>)"
  using check_result_defers_to_custom_checker
    [of clean_result example_env example_grader example_session custom_case
        "\<lparr>passed = True, cr_points = 10, feedback = [], extended_feedback = ''ok''\<rparr>"]
    check_result_defers_to_custom_checker
    [of clean_result example_env example_grader example_session example_case
        "\<lparr>passed = True, cr_points = 10, feedback = [], extended_feedback = ''ok''\<rparr>"]
  by (simp add: parsed_result_def clean_result_def custom_case_def example_env_def
        passing_module_def example_grader_def example_session_def example_case_def)

text \<open>
  C4. \<^verbatim>\<open>parse_return_code\<close> is evaluated before the result flags are looked at: when
  the selected contrib module raises \<open>err\<close> on the interactor process, \<^verbatim>\<open>check_result\<close>
  raises \<open>err\<close> for every submission result, one with failure flags included.
\<close>

theorem check_result_propagates_parse_error:
  assumes "contrib_modules e (contrib_type g) = Some m"
    and "parse_return_code m (interactor s) (interactor_binary g) (points c)
           (interactor_time_limit s) (interactor_memory_limit s)
           [] (utf8text e (interactor_stderr s)) ''interactor'' (interactor_stderr s) = Inl err"
  shows "\<forall>r. check_result e g s c r = Inl err"
  using assms by (simp add: check_result_def parsed_result_def)

theorem check_result_propagates_parse_error_witness:
  "contrib_modules example_env (contrib_type crash_grader) = Some crashing_module \<and>
   parse_return_code crashing_module (interactor example_session)
     (interactor_binary crash_grader) (points example_case)
     (interactor_time_limit example_session) (interactor_memory_limit example_session)
     [] (utf8text example_env (interactor_stderr example_session)) ''interactor''
     (interactor_stderr example_session) = Inl (InternalError ''interactor crashed'') \<and>
   result_flag tle_result \<noteq> 0 \<and>
   check_result example_env crash_grader example_session example_case tle_result =
     Inl (InternalError ''interactor crashed'')"
  using check_result_propagates_parse_error
    [of example_env crash_grader crashing_module example_session example_case
        "InternalError ''interactor crashed''"]
  by (simp add: tle_result_def crash_grader_def example_env_def crashing_module_def
        example_grader_def example_session_def example_case_def)

text \<open>
  C9. Whenever the submission's result flags are nonzero and the interactor's exit code
  parsed to a verdict, \<^verbatim>\<open>check_result\<close> returns the bare boolean \<^verbatim>\<open>False\<close>: the value
  is no \<^verbatim>\<open>CheckerResult\<close>, so the parsed points and feedback are not part of it.
\<close>

theorem check_result_flag_returns_bare_False:
  assumes "result_flag r \<noteq> 0"
    and "parsed_result e g s c = Inr pr"
  shows "check_result e g s c r = Inr (CheckerBool False) \<and>
         (\<forall>cr. check_result e g s c r \<noteq> Inr (CheckerRes cr))"
  using assms by (simp add: check_result_flagged)

theorem check_result_flag_returns_bare_False_witness:
  "result_flag tle_result \<noteq> 0 \<and>
   parsed_result example_env example_grader example_session example_case =
     Inr \<lparr>passed = True, cr_points = 10, feedback = [], extended_feedback = ''ok''\<rparr> \<and>
   check_result example_env example_grader example_session example_case tle_result =
     Inr (CheckerBool False)"
  using check_result_flag_returns_bare_False
    [of tle_result example_env example_grader example_session example_case
        "\<lparr>passed = True, cr_points = 10, feedback = [], extended_feedback = ''ok''\<rparr>"]
  by (simp add: parsed_result_def tle_result_def example_env_def passing_module_def
        example_grader_def example_session_def example_case_def)

subsection \<open>The constructor\<close>

lemma init_valid:
  "init e base p = Inr g \<Longrightarrow>
     contrib_modules e (contrib_type g) \<noteq> None \<and> handler_data g = interactive p \<and> g_problem g = p"
  by (auto simp: init_def Let_def split: sum.splits error.splits if_splits)

lemma generate_single_path:
  assumes "files h = CfgStr f"
    and "get_problem_root e (problem_id p) (storage_namespace p) = Some d"
  shows "generate_interactor_binary e p h =
           compile_with_auxiliary_files e [os_path_join d f]
             (case flags h of None \<Rightarrow> CfgList [] | Some v \<Rightarrow> v) (lang h) (compiler_time_limit h)
             (case unbuffered h of None \<Rightarrow> CfgBool True | Some v \<Rightarrow> v)"
  using assms by (simp add: generate_interactor_binary_def)

lemma join_filenames_strings:
  "join_filenames d (map CfgStr fs) = Inr (map (os_path_join d) fs)"
  by (induction fs) simp_all

lemma generate_path_list:
  assumes "files h = CfgList (map CfgStr fs)"
    and "get_problem_root e (problem_id p) (storage_namespace p) = Some d"
  shows "generate_interactor_binary e p h =
           compile_with_auxiliary_files e (map (os_path_join d) fs)
             (case flags h of None \<Rightarrow> CfgList [] | Some v \<Rightarrow> v) (lang h) (compiler_time_limit h)
             (case unbuffered h of None \<Rightarrow> CfgBool True | Some v \<Rightarrow> v)"
  using assms by (simp add: generate_interactor_binary_def join_filenames_strings)

lemma generate_other_shape:
  assumes "\<forall>f. files h \<noteq> CfgStr f" and "\<forall>fs. files h \<noteq> CfgList fs"
  shows "generate_interactor_binary e p h \<in>
           {Inl (AttributeError ''unwrap''), Inl AssertionError, Inl (UnboundLocalError ''filenames'')}"
  using assms
  by (cases "files h") (auto simp: generate_interactor_binary_def split: option.splits)

lemma init_propagates_other_errors:
  assumes "generate_interactor_binary e p (interactive p) = Inl err" and "\<forall>m. err \<noteq> CompileError m"
  shows "init e (Inr sub) p = Inl err"
  using assms by (cases err) (simp_all add: init_def)

text \<open>
  C5. With the contrib-module type \<^verbatim>\<open>'bogus'\<close>, which is no key of the registry,
  construction does not always raise \<^verbatim>\<open>InternalError\<close>: when the superclass constructor
  raises \<^verbatim>\<open>CompileError\<close> for the submission, that \<^verbatim>\<open>CompileError\<close> leaves the
  constructor, and when the interactor's \<^verbatim>\<open>files\<close> field is a mapping, the build's
  \<^verbatim>\<open>UnboundLocalError\<close> does. Line 39 is reached only after lines 29-36.
\<close>

theorem unknown_type_earlier_error_counterexample:
  "contrib_modules example_env (configured_type (interactive bogus_problem)) = None \<and>
   init example_env (Inl (CompileError ''syntax error'')) bogus_problem =
     Inl (CompileError ''syntax error'') \<and>
   (\<forall>msg. init example_env (Inl (CompileError ''syntax error'')) bogus_problem \<noteq>
      Inl (InternalError msg)) \<and>
   contrib_modules example_env (configured_type (interactive bogus_mapping_problem)) = None \<and>
   init example_env (Inr 1) bogus_mapping_problem = Inl (UnboundLocalError ''filenames'') \<and>
   (\<forall>msg. init example_env (Inr 1) bogus_mapping_problem \<noteq> Inl (InternalError msg))"
  by (simp add: init_def generate_interactor_binary_def configured_type_def example_env_def
        bogus_problem_def bogus_mapping_problem_def example_problem_def
        example_handler_data_def)

text \<open>
  C5, as amended. When the configured contrib-module type is no key of the registry,
  construction never returns a grader. An exception of the superclass constructor
  leaves the constructor as it is. When the superclass constructor has returned:
  if the interactor is built, construction raises
  \<^verbatim>\<open>InternalError('<type> is not a valid contrib module')\<close> exactly when the type is no
  key, and returns the grader when it is one; if the build raises \<^verbatim>\<open>CompileError\<close>,
  construction raises \<^verbatim>\<open>InternalError('interactor failed compiling')\<close> whatever the
  type is.
\<close>

theorem init_checks_contrib_type:
  "(contrib_modules e (configured_type (interactive p)) = None \<longrightarrow>
      (\<forall>g. init e base p \<noteq> Inr g)) \<and>
   (base = Inl err \<longrightarrow> init e base p = Inl err) \<and>
   (base = Inr sub \<and> generate_interactor_binary e p (interactive p) = Inr b \<longrightarrow>
      init e base p =
        (if contrib_modules e (configured_type (interactive p)) = None
         then Inl (InternalError
                (configured_type (interactive p) @ '' is not a valid contrib module''))
         else Inr \<lparr>g_problem = p, binary = sub, handler_data = interactive p,
                   interactor_binary = b,
                   contrib_type = configured_type (interactive p)\<rparr>)) \<and>
   (base = Inr sub \<and> generate_interactor_binary e p (interactive p) = Inl (CompileError m) \<longrightarrow>
      init e base p = Inl (InternalError ''interactor failed compiling''))"
  by (auto simp: init_def Let_def split: sum.splits error.splits)

theorem init_checks_contrib_type_witness:
  "contrib_modules example_env (configured_type (interactive bogus_problem)) = None \<and>
   generate_interactor_binary example_env bogus_problem (interactive bogus_problem) = Inr 7 \<and>
   init example_env (Inr 1) bogus_problem =
     Inl (InternalError ''bogus is not a valid contrib module'') \<and>
   contrib_modules example_env (configured_type (interactive example_problem)) =
     Some passing_module \<and>
   generate_interactor_binary example_env example_problem (interactive example_problem) = Inr 7 \<and>
   init example_env (Inr 1) example_problem = Inr example_grader \<and>
   init example_env (Inl (CompileError ''syntax error'')) bogus_problem =
     Inl (CompileError ''syntax error'') \<and>
   contrib_modules example_env (configured_type (interactive bogus_pascal_problem)) = None \<and>
   generate_interactor_binary example_env bogus_pascal_problem
     (interactive bogus_pascal_problem) = Inl (CompileError ''unknown language'') \<and>
   init example_env (Inr 1) bogus_pascal_problem =
     Inl (InternalError ''interactor failed compiling'')"
  using init_checks_contrib_type
      [of example_env bogus_problem "Inr 1" "CompileError ''syntax error''" 1 7
          "''unknown language''"]
    init_checks_contrib_type
      [of example_env example_problem "Inr 1" "CompileError ''syntax error''" 1 7
          "''unknown language''"]
    init_checks_contrib_type
      [of example_env bogus_problem "Inl (CompileError ''syntax error'')"
          "CompileError ''syntax error''" 1 7 "''unknown language''"]
    init_checks_contrib_type
      [of example_env bogus_pascal_problem "Inr 1" "CompileError ''syntax error''" 1 7
          "''unknown language''"]
  by (simp add: generate_interactor_binary_def configured_type_def os_path_join_def
        example_env_def bogus_problem_def bogus_pascal_problem_def example_problem_def
        example_handler_data_def example_grader_def)

text \<open>
  C6. When the superclass constructor has returned and building the interactor raises
  \<^verbatim>\<open>CompileError\<close>, construction raises \<^verbatim>\<open>InternalError('interactor failed compiling')\<close>
  and no \<^verbatim>\<open>CompileError\<close>.
\<close>

theorem interactor_compile_error_is_internal_error:
  assumes "base = Inr sub"
    and "generate_interactor_binary e p (interactive p) = Inl (CompileError m)"
  shows "init e base p = Inl (InternalError ''interactor failed compiling'') \<and>
         (\<forall>m'. init e base p \<noteq> Inl (CompileError m'))"
  using assms by (simp add: init_def)

theorem interactor_compile_error_is_internal_error_witness:
  "generate_interactor_binary example_env pascal_problem (interactive pascal_problem) =
     Inl (CompileError ''unknown language'') \<and>
   init example_env (Inr 1) pascal_problem = Inl (InternalError ''interactor failed compiling'')"
  using interactor_compile_error_is_internal_error
    [of "Inr 1" 1 example_env pascal_problem "''unknown language''"]
  by (simp add: generate_interactor_binary_def os_path_join_def example_env_def
        pascal_problem_def example_problem_def example_handler_data_def)

text \<open>
  C10. When the handler configuration has no \<^verbatim>\<open>type\<close> field, the superclass constructor
  has returned and the interactor is built, construction selects the contrib module
  \<^verbatim>\<open>'default'\<close>: it returns a grader with that type when \<^verbatim>\<open>'default'\<close> is a key of the
  registry, and raises \<^verbatim>\<open>InternalError\<close> when it is not.
\<close>

theorem omitted_type_selects_default:
  assumes "hd_type (interactive p) = None"
    and "base = Inr sub"
    and "generate_interactor_binary e p (interactive p) = Inr b"
  shows "init e base p =
           (if contrib_modules e ''default'' = None
            then Inl (InternalError ''default is not a valid contrib module'')
            else Inr \<lparr>g_problem = p, binary = sub, handler_data = interactive p,
                      interactor_binary = b, contrib_type = ''default''\<rparr>) \<and>
         ((\<exists>g. init e base p = Inr g) \<longleftrightarrow> contrib_modules e ''default'' \<noteq> None)"
  using assms by (auto simp: init_def configured_type_def Let_def)

theorem omitted_type_selects_default_witness:
  "hd_type (interactive example_problem) = None \<and>
   generate_interactor_binary example_env example_problem (interactive example_problem) = Inr 7 \<and>
   contrib_modules example_env ''default'' = Some passing_module \<and>
   init example_env (Inr 1) example_problem = Inr example_grader \<and>
   contrib_type example_grader = ''default'' \<and>
   generate_interactor_binary empty_registry_env example_problem (interactive example_problem) =
     Inr 7 \<and>
   contrib_modules empty_registry_env ''default'' = None \<and>
   init empty_registry_env (Inr 1) example_problem =
     Inl (InternalError ''default is not a valid contrib module'')"
  using omitted_type_selects_default [of example_problem "Inr 1" 1 example_env 7]
    omitted_type_selects_default [of example_problem "Inr 1" 1 empty_registry_env 7]
  by (simp add: generate_interactor_binary_def os_path_join_def example_env_def
        empty_registry_env_def example_problem_def example_handler_data_def example_grader_def)

text \<open>
  C7. A \<^verbatim>\<open>files\<close> field that is a mapping leaves \<^verbatim>\<open>filenames\<close> unbound, and line 134
  raises \<^verbatim>\<open>UnboundLocalError\<close>; a missing \<^verbatim>\<open>files\<close> field raises \<^verbatim>\<open>AttributeError\<close> at
  line 130. The constructor converts \<^verbatim>\<open>CompileError\<close> only, so both leave it as they
  are, and neither is an \<^verbatim>\<open>InternalError\<close>.
\<close>

theorem malformed_files_not_internal_error:
  "generate_interactor_binary example_env mapping_files_problem
     (interactive mapping_files_problem) = Inl (UnboundLocalError ''filenames'') \<and>
   init example_env (Inr 1) mapping_files_problem = Inl (UnboundLocalError ''filenames'') \<and>
   generate_interactor_binary example_env missing_files_problem
     (interactive missing_files_problem) = Inl (AttributeError ''unwrap'') \<and>
   init example_env (Inr 1) missing_files_problem = Inl (AttributeError ''unwrap'')"
  by (simp add: init_def generate_interactor_binary_def example_env_def
        mapping_files_problem_def missing_files_problem_def example_problem_def
        example_handler_data_def)

subsection \<open>The interaction session\<close>

lemma launch_process_returns:
  assumes "snd (launch_process w g c) = Inr l"
  shows "\<exists>proc. launch_submission w = Inr proc \<and>
           l = \<lparr>interactor_stdin_pipe = fst (first_pipe w),
                interactor_stdout_pipe = snd (second_pipe w),
                current_proc = Some proc\<rparr> \<and>
           fst (launch_process w g c) =
             [EvPipe (fst (first_pipe w)) (snd (first_pipe w)),
              EvPipe (fst (second_pipe w)) (snd (second_pipe w)),
              EvLaunchSubmission (time_limit (g_problem g)) (memory_limit (g_problem g))
                (symlinks c) (fst (second_pipe w)) (snd (first_pipe w))
                (wall_time_factor c * time_limit (g_problem g)),
              EvClose (fst (second_pipe w)), EvClose (snd (first_pipe w))]"
  using assms
  by (auto simp: launch_process_def bind_def call_def return_def raise_def with_removed_def split: sum.splits prod.splits)

lemma interaction_calls:
  "\<exists>proc. prefix (fst (interaction w l sub r tlim mlim args))
       [EvLaunchInteractor args tlim mlim (interactor_stdin_pipe l) (interactor_stdout_pipe l)
          (random_log_file w),
        EvClose (interactor_stdin_pipe l), EvClose (interactor_stdout_pipe l),
        EvCommunicate proc, EvWait sub, EvReadStderr sub] \<and>
     (\<forall>v. snd (interaction w l sub r tlim mlim args) = Inr v \<longrightarrow>
        fst (interaction w l sub r tlim mlim args) =
          [EvLaunchInteractor args tlim mlim (interactor_stdin_pipe l) (interactor_stdout_pipe l)
             (random_log_file w),
           EvClose (interactor_stdin_pipe l), EvClose (interactor_stdout_pipe l),
           EvCommunicate proc, EvWait sub, EvReadStderr sub])"
  by (auto simp: interaction_def bind_def call_def return_def raise_def with_removed_def split: sum.splits prod.splits)

lemma interaction_returns:
  assumes "snd (interaction w l sub r tlim mlim args) = Inr v"
  shows "\<exists>proc out err data.
           launch_interactor w = Inr proc \<and> communicate w = Inr (out, err) \<and>
           stderr_read w = Inr data \<and>
           v = (data,
                \<lparr>interactor = proc, interactor_time_limit = tlim,
                 interactor_memory_limit = mlim, interactor_stderr = err\<rparr>,
                r\<lparr>proc_output := out\<rparr>)"
  using assms
  by (auto simp: interaction_def bind_def call_def return_def raise_def with_removed_def split: sum.splits prod.splits)

text \<open>
  A run of \<^verbatim>\<open>_interact_with_process\<close> ends before the first call, or between the
  creation and the removal of the temporary files, or it is the run of lines 108-124
  between the two.
\<close>

lemma interact_cases:
  "(fst (interact_with_process e w g l c r input) = [] \<and>
    isl (snd (interact_with_process e w g l c r input))) \<or>
   (fst (interact_with_process e w g l c r input) =
      [EvMkTemp input (input_file_name w), EvMkTemp (output_data c) (answer_file_name w),
       EvRemoveTemp (answer_file_name w), EvRemoveTemp (input_file_name w)] \<and>
    isl (snd (interact_with_process e w g l c r input))) \<or>
   (\<exists>sub args.
      current_proc l = Some sub \<and>
      fst (interact_with_process e w g l c r input) =
        [EvMkTemp input (input_file_name w), EvMkTemp (output_data c) (answer_file_name w)] @
        fst (interaction w l sub r (compute_time_limit (handler_data g) (g_problem g))
               (compute_memory_limit e (handler_data g)) args) @
        [EvRemoveTemp (answer_file_name w), EvRemoveTemp (input_file_name w)] \<and>
      snd (interact_with_process e w g l c r input) =
        snd (interaction w l sub r (compute_time_limit (handler_data g) (g_problem g))
               (compute_memory_limit e (handler_data g)) args))"
  by (auto simp: interact_with_process_def bind_def call_def return_def raise_def with_removed_def Let_def
        split: option.splits sum.splits prod.splits)

lemma interact_returns_time_limit:
  assumes "snd (interact_with_process e w g l c r input) = Inr (out, s, r')"
  shows "interactor_time_limit s = compute_time_limit (handler_data g) (g_problem g)"
proof -
  from interact_cases [of e w g l c r input] assms
  obtain sub args where
    "snd (interaction w l sub r (compute_time_limit (handler_data g) (g_problem g))
            (compute_memory_limit e (handler_data g)) args) = Inr (out, s, r')"
    by auto
  from interaction_returns [OF this] show ?thesis
    by auto
qed

lemma interact_launch_time_limit:
  assumes "EvLaunchInteractor args t m i o' lg \<in> set (fst (interact_with_process e w g l c r input))"
  shows "t = compute_time_limit (handler_data g) (g_problem g)"
proof -
  from interact_cases [of e w g l c r input] assms
  obtain sub args' where
    mem: "EvLaunchInteractor args t m i o' lg \<in>
       set (fst (interaction w l sub r (compute_time_limit (handler_data g) (g_problem g))
            (compute_memory_limit e (handler_data g)) args'))"
    by auto
  from interaction_calls [of w l sub r "compute_time_limit (handler_data g) (g_problem g)"
      "compute_memory_limit e (handler_data g)" args']
  obtain proc where
    "prefix (fst (interaction w l sub r (compute_time_limit (handler_data g) (g_problem g))
            (compute_memory_limit e (handler_data g)) args'))
       [EvLaunchInteractor args' (compute_time_limit (handler_data g) (g_problem g))
          (compute_memory_limit e (handler_data g)) (interactor_stdin_pipe l)
          (interactor_stdout_pipe l) (random_log_file w),
        EvClose (interactor_stdin_pipe l), EvClose (interactor_stdout_pipe l),
        EvCommunicate proc, EvWait sub, EvReadStderr sub]"
    by blast
  from set_mono_prefix [OF this] mem show ?thesis
    by auto
qed

lemma interaction_wait:
  assumes "EvWait q \<in> set (fst (interaction w l sub r tlim mlim args))"
  shows "\<exists>proc rest. launch_interactor w = Inr proc \<and> q = sub \<and> EvWait q \<notin> set rest \<and>
           fst (interaction w l sub r tlim mlim args) =
             [EvLaunchInteractor args tlim mlim (interactor_stdin_pipe l)
                (interactor_stdout_pipe l) (random_log_file w),
              EvClose (interactor_stdin_pipe l), EvClose (interactor_stdout_pipe l),
              EvCommunicate proc] @ EvWait q # rest"
  using assms
  by (auto simp: interaction_def bind_def call_def return_def
        split: sum.splits prod.splits)

lemma interact_wait_split:
  assumes "fst (interact_with_process e w g l c r input) = pre @ EvWait q # post"
  shows "\<exists>proc args. launch_interactor w = Inr proc \<and> current_proc l = Some q \<and>
           pre = [EvMkTemp input (input_file_name w), EvMkTemp (output_data c) (answer_file_name w),
                  EvLaunchInteractor args (compute_time_limit (handler_data g) (g_problem g))
                    (compute_memory_limit e (handler_data g)) (interactor_stdin_pipe l)
                    (interactor_stdout_pipe l) (random_log_file w),
                  EvClose (interactor_stdin_pipe l), EvClose (interactor_stdout_pipe l),
                  EvCommunicate proc]"
proof -
  let ?T = "compute_time_limit (handler_data g) (g_problem g)"
  let ?M = "compute_memory_limit e (handler_data g)"
  have mem: "EvWait q \<in> set (fst (interact_with_process e w g l c r input))"
    by (simp add: assms)
  with interact_cases [of e w g l c r input]
  obtain sub args where sub: "current_proc l = Some sub"
    and tr: "fst (interact_with_process e w g l c r input) =
        [EvMkTemp input (input_file_name w), EvMkTemp (output_data c) (answer_file_name w)] @
        fst (interaction w l sub r ?T ?M args) @
        [EvRemoveTemp (answer_file_name w), EvRemoveTemp (input_file_name w)]"
    by auto
  from mem tr have "EvWait q \<in> set (fst (interaction w l sub r ?T ?M args))"
    by auto
  from interaction_wait [OF this] obtain proc rest where
    proc: "launch_interactor w = Inr proc" and q: "q = sub" and rest: "EvWait q \<notin> set rest"
    and it: "fst (interaction w l sub r ?T ?M args) =
       [EvLaunchInteractor args ?T ?M (interactor_stdin_pipe l)
          (interactor_stdout_pipe l) (random_log_file w),
        EvClose (interactor_stdin_pipe l), EvClose (interactor_stdout_pipe l),
        EvCommunicate proc] @ EvWait q # rest"
    by blast
  let ?P = "[EvMkTemp input (input_file_name w), EvMkTemp (output_data c) (answer_file_name w),
             EvLaunchInteractor args ?T ?M (interactor_stdin_pipe l)
               (interactor_stdout_pipe l) (random_log_file w),
             EvClose (interactor_stdin_pipe l), EvClose (interactor_stdout_pipe l),
             EvCommunicate proc]"
  let ?R = "rest @ [EvRemoveTemp (answer_file_name w), EvRemoveTemp (input_file_name w)]"
  have "pre @ EvWait q # post = ?P @ EvWait q # ?R"
    using assms tr it by simp
  moreover have "EvWait q \<notin> set ?P" and "EvWait q \<notin> set ?R"
    using rest by simp_all
  ultimately have "pre = ?P"
    by (metis append_Cons_eq_iff)
  with proc sub q show ?thesis
    by blast
qed

text \<open>
  C3. On the example configuration with \<^verbatim>\<open>preprocessing_time: 0\<close> and a time limit of
  5, the interactor's time limit is 7, not the 5 that "configured preprocessing time
  plus time limit" gives.
\<close>

theorem zero_preprocessing_time_counterexample:
  "preprocessing_time (handler_data zero_slack_grader) = Some 0 \<and>
   time_limit (g_problem zero_slack_grader) = 5 \<and>
   snd (interact_with_process example_env example_world zero_slack_grader example_launched
          example_case clean_result ''7'') = Inr ([], example_session, clean_result) \<and>
   interactor_time_limit example_session = 7 \<and>
   interactor_time_limit example_session \<noteq>
     specified_time_limit (handler_data zero_slack_grader) (g_problem zero_slack_grader)"
  by (simp add: interact_with_process_def interaction_def resolve_args_format_string_def
        compute_time_limit_def compute_memory_limit_def specified_time_limit_def
        example_env_def passing_module_def example_world_def zero_slack_grader_def
        zero_slack_problem_def example_grader_def example_problem_def example_handler_data_def
        example_launched_def example_case_def example_session_def clean_result_def bind_def
        call_def return_def raise_def with_removed_def)

text \<open>
  C3, as amended. For every handler configuration and every time limit \<open>T\<close> of the
  problem, the time limit the interactor is launched with, and the one kept for
  \<^verbatim>\<open>check_result\<close>, is \<open>P + T\<close>, where \<open>P\<close> is the configured preprocessing time when
  one is configured and is not zero, and 2 otherwise. Nothing else in the
  configuration enters it.
\<close>

theorem interactor_time_limit_computed:
  "(\<forall>out s r'. snd (interact_with_process e w g l c r input) = Inr (out, s, r') \<longrightarrow>
      interactor_time_limit s =
        (case preprocessing_time (handler_data g) of
           None \<Rightarrow> 2
         | Some t \<Rightarrow> if t = 0 then 2 else t) + time_limit (g_problem g)) \<and>
   (\<forall>args t m i k lg. EvLaunchInteractor args t m i k lg
        \<in> set (fst (interact_with_process e w g l c r input)) \<longrightarrow>
      t = (case preprocessing_time (handler_data g) of
             None \<Rightarrow> 2
           | Some t \<Rightarrow> if t = 0 then 2 else t) + time_limit (g_problem g))"
  using interact_returns_time_limit [of e w g l c r input]
    interact_launch_time_limit [of _ _ _ _ _ _ e w g l c r input]
  by (simp add: compute_time_limit_def)

theorem interactor_time_limit_computed_witness:
  "snd (interact_with_process example_env example_world example_grader example_launched
          example_case clean_result ''7'') = Inr ([], example_session, clean_result) \<and>
   preprocessing_time (handler_data example_grader) = None \<and>
   time_limit (g_problem example_grader) = 5 \<and>
   interactor_time_limit example_session = 2 + 5"
  using interactor_time_limit_computed
    [of example_env example_world example_grader example_launched example_case clean_result
        "''7''"]
  by (simp add: interact_with_process_def interaction_def resolve_args_format_string_def
        compute_time_limit_def compute_memory_limit_def example_env_def passing_module_def
        example_world_def example_grader_def example_problem_def example_handler_data_def
        example_launched_def example_case_def example_session_def clean_result_def bind_def
        call_def return_def raise_def with_removed_def)

text \<open>
  C8. For a session set up by \<^verbatim>\<open>_launch_process\<close>, the interactor's pipe ends are the
  read end of the first pipe and the write end of the second (the submission holds the
  other two). Every run of \<^verbatim>\<open>_interact_with_process\<close> makes, between creating and
  removing the temporary files, an initial part of this sequence of calls and nothing
  else: launch the interactor on those pipe ends, close the first, close the second,
  \<^verbatim>\<open>communicate()\<close> with the interactor, \<^verbatim>\<open>wait()\<close> for the submission, read the
  submission's stderr. A run that returns has made all of them. Wherever the run
  waits for the submission, the calls before that point are exactly the creation of
  the temporary files, the launch, the two closes and \<^verbatim>\<open>communicate()\<close>, in this order.
\<close>

theorem interaction_order:
  assumes "snd (launch_process w g c) = Inr l"
  shows "interactor_stdin_pipe l = fst (first_pipe w) \<and>
         interactor_stdout_pipe l = snd (second_pipe w) \<and>
         (\<exists>body args proc sub.
            (fst (interact_with_process e w g l c r input) = [] \<or>
             fst (interact_with_process e w g l c r input) =
               [EvMkTemp input (input_file_name w), EvMkTemp (output_data c) (answer_file_name w)] @
               body @ [EvRemoveTemp (answer_file_name w), EvRemoveTemp (input_file_name w)]) \<and>
            prefix body
              [EvLaunchInteractor args (compute_time_limit (handler_data g) (g_problem g))
                 (compute_memory_limit e (handler_data g))
                 (fst (first_pipe w)) (snd (second_pipe w)) (random_log_file w),
               EvClose (fst (first_pipe w)), EvClose (snd (second_pipe w)),
               EvCommunicate proc, EvWait sub, EvReadStderr sub] \<and>
            launch_submission w = Inr sub \<and>
            (\<forall>v. snd (interact_with_process e w g l c r input) = Inr v \<longrightarrow>
               launch_interactor w = Inr proc \<and>
               fst (interact_with_process e w g l c r input) =
                 [EvMkTemp input (input_file_name w), EvMkTemp (output_data c) (answer_file_name w),
                  EvLaunchInteractor args (compute_time_limit (handler_data g) (g_problem g))
                    (compute_memory_limit e (handler_data g))
                    (fst (first_pipe w)) (snd (second_pipe w)) (random_log_file w),
                  EvClose (fst (first_pipe w)), EvClose (snd (second_pipe w)),
                  EvCommunicate proc, EvWait sub, EvReadStderr sub,
                  EvRemoveTemp (answer_file_name w), EvRemoveTemp (input_file_name w)])) \<and>
         (\<forall>pre q post.
            fst (interact_with_process e w g l c r input) = pre @ EvWait q # post \<longrightarrow>
            (\<exists>args proc.
               launch_submission w = Inr q \<and> launch_interactor w = Inr proc \<and>
               pre =
                 [EvMkTemp input (input_file_name w), EvMkTemp (output_data c) (answer_file_name w),
                  EvLaunchInteractor args (compute_time_limit (handler_data g) (g_problem g))
                    (compute_memory_limit e (handler_data g))
                    (fst (first_pipe w)) (snd (second_pipe w)) (random_log_file w),
                  EvClose (fst (first_pipe w)), EvClose (snd (second_pipe w)),
                  EvCommunicate proc]))"
proof -
  from launch_process_returns [OF assms] obtain sub where
    sub: "launch_submission w = Inr sub" and
    l: "l = \<lparr>interactor_stdin_pipe = fst (first_pipe w),
              interactor_stdout_pipe = snd (second_pipe w), current_proc = Some sub\<rparr>"
    by blast
  let ?tr = "fst (interact_with_process e w g l c r input)"
  let ?res = "snd (interact_with_process e w g l c r input)"
  let ?T = "compute_time_limit (handler_data g) (g_problem g)"
  let ?M = "compute_memory_limit e (handler_data g)"
  let ?full = "\<lambda>args proc.
     [EvLaunchInteractor args ?T ?M (fst (first_pipe w)) (snd (second_pipe w)) (random_log_file w),
      EvClose (fst (first_pipe w)), EvClose (snd (second_pipe w)),
      EvCommunicate proc, EvWait sub, EvReadStderr sub]"
  have pipes: "interactor_stdin_pipe l = fst (first_pipe w)"
    "interactor_stdout_pipe l = snd (second_pipe w)" "current_proc l = Some sub"
    by (simp_all add: l)
  consider (none) "?tr = []" "isl ?res"
    | (temps) "?tr = [EvMkTemp input (input_file_name w), EvMkTemp (output_data c) (answer_file_name w),
         EvRemoveTemp (answer_file_name w), EvRemoveTemp (input_file_name w)]" "isl ?res"
    | (session) args where
        "?tr = [EvMkTemp input (input_file_name w), EvMkTemp (output_data c) (answer_file_name w)] @
           fst (interaction w l sub r ?T ?M args) @
           [EvRemoveTemp (answer_file_name w), EvRemoveTemp (input_file_name w)]"
        "?res = snd (interaction w l sub r ?T ?M args)"
    using interact_cases [of e w g l c r input] pipes(3) by auto
  then have "\<exists>body args proc.
      (?tr = [] \<or> ?tr = [EvMkTemp input (input_file_name w), EvMkTemp (output_data c) (answer_file_name w)] @
               body @ [EvRemoveTemp (answer_file_name w), EvRemoveTemp (input_file_name w)]) \<and>
      prefix body (?full args proc) \<and>
      (\<forall>v. ?res = Inr v \<longrightarrow> launch_interactor w = Inr proc \<and>
          ?tr = [EvMkTemp input (input_file_name w), EvMkTemp (output_data c) (answer_file_name w)] @
                ?full args proc @ [EvRemoveTemp (answer_file_name w), EvRemoveTemp (input_file_name w)])"
  proof cases
    case none
    then show ?thesis
      by (intro exI [of _ "[]"]) auto
  next
    case temps
    then show ?thesis
      by (intro exI [of _ "[]"]) auto
  next
    case (session args)
    from interaction_calls [of w l sub r ?T ?M args] obtain proc where
      p: "prefix (fst (interaction w l sub r ?T ?M args)) (?full args proc)"
      and f: "\<forall>v. snd (interaction w l sub r ?T ?M args) = Inr v \<longrightarrow>
            fst (interaction w l sub r ?T ?M args) = ?full args proc"
      by (auto simp: pipes)
    have "\<forall>v. ?res = Inr v \<longrightarrow> launch_interactor w = Inr proc"
    proof (intro allI impI)
      fix v assume v: "?res = Inr v"
      then have r: "snd (interaction w l sub r ?T ?M args) = Inr v"
        by (simp add: session)
      with f have "fst (interaction w l sub r ?T ?M args) = ?full args proc" by blast
      moreover from interaction_returns [OF r] obtain proc' where
        "launch_interactor w = Inr proc'" by blast
      ultimately show "launch_interactor w = Inr proc"
        by (auto simp: interaction_def bind_def call_def return_def raise_def with_removed_def split: sum.splits prod.splits)
    qed
    with p f session show ?thesis
      by (intro exI [of _ "fst (interaction w l sub r ?T ?M args)"] exI [of _ args] exI [of _ proc])
         auto
  qed
  moreover have "\<forall>pre q post. ?tr = pre @ EvWait q # post \<longrightarrow>
      (\<exists>args proc. launch_submission w = Inr q \<and> launch_interactor w = Inr proc \<and>
         pre = [EvMkTemp input (input_file_name w), EvMkTemp (output_data c) (answer_file_name w),
                EvLaunchInteractor args ?T ?M (fst (first_pipe w)) (snd (second_pipe w))
                  (random_log_file w),
                EvClose (fst (first_pipe w)), EvClose (snd (second_pipe w)),
                EvCommunicate proc])"
  proof (intro allI impI)
    fix pre q post
    assume "?tr = pre @ EvWait q # post"
    from interact_wait_split [OF this] sub pipes
    show "\<exists>args proc. launch_submission w = Inr q \<and> launch_interactor w = Inr proc \<and>
         pre = [EvMkTemp input (input_file_name w), EvMkTemp (output_data c) (answer_file_name w),
                EvLaunchInteractor args ?T ?M (fst (first_pipe w)) (snd (second_pipe w))
                  (random_log_file w),
                EvClose (fst (first_pipe w)), EvClose (snd (second_pipe w)),
                EvCommunicate proc]"
      by auto
  qed
  ultimately show ?thesis
    using sub pipes by auto
qed

theorem interaction_order_witness:
  "snd (launch_process example_world example_grader example_case) = Inr example_launched \<and>
   interact_with_process example_env example_world example_grader example_launched
     example_case clean_result ''7'' =
     ([EvMkTemp ''7'' ''/tmp/in'', EvMkTemp ''42'' ''/tmp/ans'',
       EvLaunchInteractor [''/tmp/in'', ''k3_x9a0q'', ''/tmp/ans''] 7 65536 3 6 ''k3_x9a0q'',
       EvClose 3, EvClose 6,
       EvCommunicate \<lparr>pid = 101, stderr_piped = True\<rparr>,
       EvWait \<lparr>pid = 100, stderr_piped = True\<rparr>,
       EvReadStderr \<lparr>pid = 100, stderr_piped = True\<rparr>,
       EvRemoveTemp ''/tmp/ans'', EvRemoveTemp ''/tmp/in''],
      Inr ([], example_session, clean_result))"
  using interaction_order
    [of example_world example_grader example_case example_launched example_env clean_result
        "''7''"]
  by (simp add: launch_process_def interact_with_process_def interaction_def
        resolve_args_format_string_def compute_time_limit_def compute_memory_limit_def
        example_env_def passing_module_def example_world_def example_grader_def
        example_problem_def example_handler_data_def example_launched_def example_case_def
        example_session_def clean_result_def bind_def call_def return_def raise_def
        with_removed_def)

end
